theory Spec2Isabelle
  imports Main "HOL-Library.Multiset"
begin

section \<open>Values crossing the HTTP and SQL boundaries\<close>

text \<open>
  A request body is the object that \<^verbatim>\<open>express.json()\<close> parsed. The handlers only
  destructure it (\<^verbatim>\<open>const { email, password, garageName } = req.body\<close>) and spread it
  (\<^verbatim>\<open>...req.body\<close>), so it is a finite map from keys to values; a key that is absent
  reads as \<^verbatim>\<open>undefined\<close>, which is \<open>None\<close> here.

  Field values are the scalar JSON values. Numbers are the integral ones; arrays and nested
  objects as field values are not covered (the SQLite driver spreads an array argument over
  several placeholders, which this development does not describe).
\<close>

datatype jsval = JNull | JBool bool | JNum int | JStr string

type_synonym jsobj = "string \<rightharpoonup> jsval"

text \<open>What a prepared statement holds in one placeholder after binding.\<close>

datatype sqlval = SNull | SNum int | SText string

text \<open>
  The exceptions that can be thrown inside the handlers: the driver refusing to bind a
  value, SQLite refusing an insert (\<^verbatim>\<open>UNIQUE constraint failed: users.email\<close>,
  \<^verbatim>\<open>FOREIGN KEY constraint failed\<close>), and bcryptjs refusing an argument that is not
  a string (\<^verbatim>\<open>Illegal arguments: ...\<close>).
\<close>

datatype exn =
  TypeError | UniqueConstraintFailed | ForeignKeyConstraintFailed | IllegalArguments

text \<open>The payload signed into a token: \<^verbatim>\<open>{ userId, email, garageName }\<close>.\<close>

record jwt_payload =
  userId :: int
  payload_email :: "jsval option"
  garageName :: "jsval option"

section \<open>The libraries the server calls\<close>

text \<open>
  \<^verbatim>\<open>bcryptjs\<close>, \<^verbatim>\<open>jsonwebtoken\<close> and the SQLite text conversions are not part of the
  repository; every handler takes them as a parameter. \<open>JWT_SECRET\<close> is the process-wide
  secret (\<^verbatim>\<open>process.env.JWT_SECRET || "fallback-secret"\<close>). \<open>bcrypt_hash\<close> takes the
  plaintext and the salt that bcryptjs draws; \<open>num_text\<close> is the text SQLite stores when a
  number reaches a TEXT column; \<open>rowid_of_text\<close> is the integer, if any, that the text of
  \<^verbatim>\<open>req.params.id\<close> is compared as against the INTEGER column \<^verbatim>\<open>id\<close>.
\<close>

record env =
  JWT_SECRET :: string
  bcrypt_hash :: "string \<Rightarrow> string \<Rightarrow> string"
  bcrypt_compare :: "string \<Rightarrow> string \<Rightarrow> bool"
  jwt_sign :: "jwt_payload \<Rightarrow> string \<Rightarrow> string"
  jwt_verify :: "string \<Rightarrow> string \<Rightarrow> jwt_payload option"
  num_text :: "int \<Rightarrow> string"
  rowid_of_text :: "string \<Rightarrow> int option"

text \<open>
  \<^verbatim>\<open>bcrypt.hash(password, 10)\<close> and \<^verbatim>\<open>bcrypt.compare(password, user.password)\<close> reject
  with an error unless their arguments are strings.
\<close>

fun hash_password :: "env \<Rightarrow> jsval option \<Rightarrow> string \<Rightarrow> exn + string" where
  "hash_password E (Some (JStr p)) salt = Inr (bcrypt_hash E p salt)"
| "hash_password E _ salt = Inl IllegalArguments"

fun compare_password :: "env \<Rightarrow> jsval option \<Rightarrow> string option \<Rightarrow> exn + bool" where
  "compare_password E (Some (JStr p)) (Some h) = Inr (bcrypt_compare E p h)"
| "compare_password E _ _ = Inl IllegalArguments"

section \<open>The database\<close>

text \<open>
  The driver binds numbers and strings as they are, and \<^verbatim>\<open>null\<close> and
  \<^verbatim>\<open>undefined\<close> as NULL; for a boolean it throws a \<^verbatim>\<open>TypeError\<close> before the
  statement runs.
\<close>

fun bind :: "jsval option \<Rightarrow> exn + sqlval" where
  "bind None = Inr SNull"
| "bind (Some JNull) = Inr SNull"
| "bind (Some (JNum n)) = Inr (SNum n)"
| "bind (Some (JStr s)) = Inr (SText s)"
| "bind (Some (JBool b)) = Inl TypeError"

definition bindable :: "jsval option \<Rightarrow> bool" where
  "bindable v = (\<not> isl (bind v))"

text \<open>A TEXT column keeps NULL and text, and turns a number into its text.\<close>

fun text_affinity :: "env \<Rightarrow> sqlval \<Rightarrow> string option" where
  "text_affinity E SNull = None"
| "text_affinity E (SNum n) = Some (num_text E n)"
| "text_affinity E (SText s) = Some s"

definition column :: "env \<Rightarrow> jsval option \<Rightarrow> string option" where
  "column E v = (case bind v of Inl _ \<Rightarrow> None | Inr x \<Rightarrow> text_affinity E x)"

text \<open>The two tables of the \<^verbatim>\<open>CREATE TABLE\<close> statements; \<open>None\<close> is NULL.\<close>

record user_row =
  u_id :: int
  email :: "string option"
  password :: "string option"
  garage_name :: "string option"

record vehicle_row =
  v_id :: int
  user_id :: int
  owner_name :: "string option"
  phone :: "string option"
  vehicle_number :: "string option"
  make_col :: "string option"
  model :: "string option"
  last_service_date :: "string option"
  next_service_date :: "string option"
  notes_col :: "string option"

text \<open>
  Rows are kept in insertion order. Both keys are \<^verbatim>\<open>INTEGER PRIMARY KEY AUTOINCREMENT\<close>:
  the table remembers the largest rowid it ever gave out (\<open>users_seq\<close>, \<open>vehicles_seq\<close>)
  and a new row gets one more than the largest of that and the rowids present.
\<close>

record db =
  users :: "user_row list"
  users_seq :: int
  vehicles :: "vehicle_row list"
  vehicles_seq :: int


definition next_rowid :: "int \<Rightarrow> int list \<Rightarrow> int" where
  "next_rowid seq ids = fold max ids seq + 1"

text \<open>
  \<^verbatim>\<open>INSERT INTO users (email, password, garage_name) VALUES (?, ?, ?)\<close>. The column
  \<^verbatim>\<open>email\<close> is UNIQUE: an insert fails when its email is not NULL and some row already
  holds the same text (byte for byte). The result is \<^verbatim>\<open>lastInsertRowid\<close> and the new
  store; a refused insert changes neither the table nor its counter.
\<close>

definition insert_user ::
  "env \<Rightarrow> db \<Rightarrow> jsval option \<Rightarrow> jsval option \<Rightarrow> jsval option \<Rightarrow> exn + (int \<times> db)" where
  "insert_user E s em pw gn =
     (if \<not> (bindable em \<and> bindable pw \<and> bindable gn) then Inl TypeError
      else if column E em \<noteq> None \<and> column E em \<in> set (map email (users s))
      then Inl UniqueConstraintFailed
      else let i = next_rowid (users_seq s) (map u_id (users s)) in
        Inr (i, s\<lparr>users := users s @
                     [\<lparr>u_id = i, email = column E em, password = column E pw,
                       garage_name = column E gn\<rparr>],
                  users_seq := i\<rparr>))"

text \<open>
  \<^verbatim>\<open>SELECT * FROM users WHERE email = ?\<close> with \<^verbatim>\<open>.get(email)\<close>: the first matching
  row, or \<^verbatim>\<open>undefined\<close>. NULL matches nothing.
\<close>

definition select_user :: "env \<Rightarrow> db \<Rightarrow> jsval option \<Rightarrow> exn + user_row option" where
  "select_user E s em =
     (if \<not> bindable em then Inl TypeError
      else case column E em of
             None \<Rightarrow> Inr None
           | Some t \<Rightarrow> Inr (find (\<lambda>u. email u = Some t) (users s)))"

text \<open>\<^verbatim>\<open>SELECT * FROM vehicles WHERE user_id = ? ORDER BY id DESC\<close>.\<close>

definition select_vehicles :: "db \<Rightarrow> int \<Rightarrow> vehicle_row list" where
  "select_vehicles s uid =
     sort_key (\<lambda>r. - v_id r) (filter (\<lambda>r. user_id r = uid) (vehicles s))"

text \<open>The eight body keys that the vehicle handlers destructure and bind.\<close>

definition field_names :: "string list" where
  "field_names = [''owner_name'', ''phone'', ''vehicle_number'', ''make'', ''model'',
                  ''last_service_date'', ''next_service_date'', ''notes'']"

definition fields_bindable :: "jsobj \<Rightarrow> bool" where
  "fields_bindable body = list_all (\<lambda>k. bindable (body k)) field_names"

text \<open>
  \<^verbatim>\<open>INSERT INTO vehicles (user_id, owner_name, ..., notes) VALUES (?, ..., ?)\<close>, run with
  the caller's \<^verbatim>\<open>userId\<close> and the eight destructured values. The column
  \<^verbatim>\<open>user_id\<close> is declared \<^verbatim>\<open>FOREIGN KEY(user_id) REFERENCES users(id)\<close> and the
  driver opens the database with foreign keys enforced: the insert is refused unless some
  account has that id. A refused insert changes neither the table nor its counter.
\<close>

definition insert_vehicle :: "env \<Rightarrow> db \<Rightarrow> int \<Rightarrow> jsobj \<Rightarrow> exn + (int \<times> db)" where
  "insert_vehicle E s uid body =
     (if \<not> fields_bindable body then Inl TypeError
      else if uid \<notin> set (map u_id (users s)) then Inl ForeignKeyConstraintFailed
      else let i = next_rowid (vehicles_seq s) (map v_id (vehicles s)) in
        Inr (i, s\<lparr>vehicles := vehicles s @
                     [\<lparr>v_id = i, user_id = uid,
                       owner_name = column E (body ''owner_name''),
                       phone = column E (body ''phone''),
                       vehicle_number = column E (body ''vehicle_number''),
                       make_col = column E (body ''make''),
                       model = column E (body ''model''),
                       last_service_date = column E (body ''last_service_date''),
                       next_service_date = column E (body ''next_service_date''),
                       notes_col = column E (body ''notes'')\<rparr>],
                  vehicles_seq := i\<rparr>))"

text \<open>The row filter \<^verbatim>\<open>WHERE id = ? AND user_id = ?\<close> of UPDATE and DELETE.\<close>

definition targets :: "env \<Rightarrow> string \<Rightarrow> int \<Rightarrow> vehicle_row \<Rightarrow> bool" where
  "targets E rid uid r = (rowid_of_text E rid = Some (v_id r) \<and> user_id r = uid)"

definition update_vehicle :: "env \<Rightarrow> db \<Rightarrow> string \<Rightarrow> int \<Rightarrow> jsobj \<Rightarrow> exn + db" where
  "update_vehicle E s rid uid body =
     (if \<not> fields_bindable body then Inl TypeError
      else Inr (s\<lparr>vehicles :=
             map (\<lambda>r. if targets E rid uid r
                      then r\<lparr>owner_name := column E (body ''owner_name''),
                             phone := column E (body ''phone''),
                             vehicle_number := column E (body ''vehicle_number''),
                             make_col := column E (body ''make''),
                             model := column E (body ''model''),
                             last_service_date := column E (body ''last_service_date''),
                             next_service_date := column E (body ''next_service_date''),
                             notes_col := column E (body ''notes'')\<rparr>
                      else r)
                 (vehicles s)\<rparr>))"

definition delete_vehicle :: "env \<Rightarrow> db \<Rightarrow> string \<Rightarrow> int \<Rightarrow> db" where
  "delete_vehicle E s rid uid =
     s\<lparr>vehicles := filter (\<lambda>r. \<not> targets E rid uid r) (vehicles s)\<rparr>"

section \<open>Replies\<close>

text \<open>
  One constructor per response the server sends: \<^verbatim>\<open>{ token, user: { email, garageName } }\<close>,
  \<^verbatim>\<open>res.status(n).json({ error: msg })\<close>, the array of rows, \<^verbatim>\<open>{ id, ...req.body }\<close>,
  \<^verbatim>\<open>{ success: true }\<close>, and the 500 that Express sends when a handler throws.
\<close>

datatype reply =
    AuthOk string "jsval option" "jsval option"
  | ErrorReply nat string
  | VehicleList "vehicle_row list"
  | Created jsobj
  | Success
  | UncaughtError

text \<open>A row as \<^verbatim>\<open>res.json\<close> writes it.\<close>

definition text_json :: "string option \<Rightarrow> jsval" where
  "text_json c = (case c of None \<Rightarrow> JNull | Some t \<Rightarrow> JStr t)"

definition row_json :: "vehicle_row \<Rightarrow> jsobj" where
  "row_json r =
     [''id'' \<mapsto> JNum (v_id r), ''user_id'' \<mapsto> JNum (user_id r),
      ''owner_name'' \<mapsto> text_json (owner_name r), ''phone'' \<mapsto> text_json (phone r),
      ''vehicle_number'' \<mapsto> text_json (vehicle_number r), ''make'' \<mapsto> text_json (make_col r),
      ''model'' \<mapsto> text_json (model r),
      ''last_service_date'' \<mapsto> text_json (last_service_date r),
      ''next_service_date'' \<mapsto> text_json (next_service_date r),
      ''notes'' \<mapsto> text_json (notes_col r)]"

text \<open>
  Bodies in which each of the eight fields is a string, \<^verbatim>\<open>null\<close> or left out. A
  TEXT column gives a string and \<^verbatim>\<open>null\<close> back as it got them, and \<^verbatim>\<open>null\<close> for
  a field that was left out: \<open>listed\<close> is what such a field reads as in the listing.
\<close>

fun text_or_null :: "jsval option \<Rightarrow> bool" where
  "text_or_null None = True"
| "text_or_null (Some JNull) = True"
| "text_or_null (Some (JStr t)) = True"
| "text_or_null (Some (JNum n)) = False"
| "text_or_null (Some (JBool b)) = False"

fun listed :: "jsval option \<Rightarrow> jsval option" where
  "listed None = Some JNull"
| "listed (Some v) = Some v"

definition fields_text :: "jsobj \<Rightarrow> bool" where
  "fields_text body = list_all (\<lambda>k. text_or_null (body k)) field_names"

section \<open>Auth routes\<close>

definition signup :: "env \<Rightarrow> db \<Rightarrow> jsobj \<Rightarrow> string \<Rightarrow> reply \<times> db" where
  "signup E s body salt =
     (case hash_password E (body ''password'') salt of
        Inl err \<Rightarrow> (ErrorReply 500 ''Internal server error'', s)
      | Inr hashedPassword \<Rightarrow>
          (case insert_user E s (body ''email'') (Some (JStr hashedPassword))
                  (body ''garageName'') of
             Inl err \<Rightarrow>
               (if err = UniqueConstraintFailed
                then (ErrorReply 400 ''Email already exists'', s)
                else (ErrorReply 500 ''Internal server error'', s))
           | Inr (lastInsertRowid, s') \<Rightarrow>
               (AuthOk (jwt_sign E \<lparr>userId = lastInsertRowid,
                                     payload_email = body ''email'',
                                     garageName = body ''garageName''\<rparr> (JWT_SECRET E))
                       (body ''email'') (body ''garageName''), s')))"

definition login :: "env \<Rightarrow> db \<Rightarrow> jsobj \<Rightarrow> reply \<times> db" where
  "login E s body =
     (case select_user E s (body ''email'') of
        Inl err \<Rightarrow> (ErrorReply 500 ''Internal server error'', s)
      | Inr None \<Rightarrow> (ErrorReply 401 ''Invalid credentials'', s)
      | Inr (Some user) \<Rightarrow>
          (case compare_password E (body ''password'') (password user) of
             Inl err \<Rightarrow> (ErrorReply 500 ''Internal server error'', s)
           | Inr False \<Rightarrow> (ErrorReply 401 ''Invalid credentials'', s)
           | Inr True \<Rightarrow>
               (AuthOk (jwt_sign E \<lparr>userId = u_id user,
                                     payload_email = Some (text_json (email user)),
                                     garageName = Some (text_json (garage_name user))\<rparr>
                                  (JWT_SECRET E))
                       (Some (text_json (email user)))
                       (Some (text_json (garage_name user))), s)))"

section \<open>Middleware\<close>

text \<open>\<^verbatim>\<open>s.split(" ")\<close>: the pieces between single spaces, empty pieces included.\<close>

fun split_space :: "string \<Rightarrow> string list" where
  "split_space [] = [[]]"
| "split_space (c # cs) =
     (if c = CHR '' '' then [] # split_space cs
      else (case split_space cs of
              [] \<Rightarrow> [[c]]
            | w # ws \<Rightarrow> (c # w) # ws))"

text \<open>
  \<^verbatim>\<open>req.headers.authorization?.split(" ")[1]\<close>: \<open>None\<close> when the header is absent or has
  no second piece.
\<close>

definition bearer_token :: "string option \<Rightarrow> string option" where
  "bearer_token hdr =
     (case hdr of
        None \<Rightarrow> None
      | Some h \<Rightarrow> (case split_space h of
                     a # t # rest \<Rightarrow> Some t
                   | _ \<Rightarrow> None))"

text \<open>
  \<open>Inl\<close> is the reply sent without calling \<^verbatim>\<open>next()\<close>; \<open>Inr\<close> is \<^verbatim>\<open>req.user\<close>, with
  which the route handler then runs. The empty string is falsy, so \<^verbatim>\<open>!token\<close> holds
  for it too.
\<close>

definition authenticate :: "env \<Rightarrow> string option \<Rightarrow> reply + jwt_payload" where
  "authenticate E hdr =
     (case bearer_token hdr of
        None \<Rightarrow> Inl (ErrorReply 401 ''Unauthorized'')
      | Some token \<Rightarrow>
          (if token = [] then Inl (ErrorReply 401 ''Unauthorized'')
           else (case jwt_verify E token (JWT_SECRET E) of
                   None \<Rightarrow> Inl (ErrorReply 401 ''Invalid token'')
                 | Some decoded \<Rightarrow> Inr decoded)))"

section \<open>Vehicle routes\<close>

definition get_vehicles :: "env \<Rightarrow> db \<Rightarrow> string option \<Rightarrow> reply \<times> db" where
  "get_vehicles E s hdr =
     (case authenticate E hdr of
        Inl r \<Rightarrow> (r, s)
      | Inr user \<Rightarrow> (VehicleList (select_vehicles s (userId user)), s))"

definition post_vehicles :: "env \<Rightarrow> db \<Rightarrow> string option \<Rightarrow> jsobj \<Rightarrow> reply \<times> db" where
  "post_vehicles E s hdr body =
     (case authenticate E hdr of
        Inl r \<Rightarrow> (r, s)
      | Inr user \<Rightarrow>
          (case insert_vehicle E s (userId user) body of
             Inl err \<Rightarrow> (UncaughtError, s)
           | Inr (lastInsertRowid, s') \<Rightarrow>
               (Created ([''id'' \<mapsto> JNum lastInsertRowid] ++ body), s')))"

definition put_vehicles ::
  "env \<Rightarrow> db \<Rightarrow> string option \<Rightarrow> string \<Rightarrow> jsobj \<Rightarrow> reply \<times> db" where
  "put_vehicles E s hdr rid body =
     (case authenticate E hdr of
        Inl r \<Rightarrow> (r, s)
      | Inr user \<Rightarrow>
          (case update_vehicle E s rid (userId user) body of
             Inl err \<Rightarrow> (UncaughtError, s)
           | Inr s' \<Rightarrow> (Success, s')))"

definition delete_vehicles :: "env \<Rightarrow> db \<Rightarrow> string option \<Rightarrow> string \<Rightarrow> reply \<times> db" where
  "delete_vehicles E s hdr rid =
     (case authenticate E hdr of
        Inl r \<Rightarrow> (r, s)
      | Inr user \<Rightarrow> (Success, delete_vehicle E s rid (userId user)))"

section \<open>The server as a step function\<close>

datatype request =
    Signup jsobj string
  | Login jsobj
  | GetVehicles "string option"
  | PostVehicles "string option" jsobj
  | PutVehicles "string option" string jsobj
  | DeleteVehicles "string option" string

fun handle :: "env \<Rightarrow> db \<Rightarrow> request \<Rightarrow> reply \<times> db" where
  "handle E s (Signup body salt) = signup E s body salt"
| "handle E s (Login body) = login E s body"
| "handle E s (GetVehicles hdr) = get_vehicles E s hdr"
| "handle E s (PostVehicles hdr body) = post_vehicles E s hdr body"
| "handle E s (PutVehicles hdr rid body) = put_vehicles E s hdr rid body"
| "handle E s (DeleteVehicles hdr rid) = delete_vehicles E s hdr rid"

section \<open>The dashboard's service-date classification\<close>

text \<open>
  The client keeps the rows it fetched as values of its \<^verbatim>\<open>Vehicle\<close> interface, every
  field but the id a string. (The field names carry a suffix here because the column names
  above are already taken.)
\<close>

record Vehicle =
  id_v :: int
  owner_name_v :: string
  phone_v :: string
  vehicle_number_v :: string
  make_v :: string
  model_v :: string
  last_service_date_v :: string
  next_service_date_v :: string
  notes_v :: string

text \<open>
  A \<^verbatim>\<open>Date\<close> is its time value in milliseconds, or \<open>None\<close> for an invalid date, on
  which every comparison of date-fns is false. The two functions of date-fns that depend
  on the local time zone are parameters: \<^verbatim>\<open>parseISO\<close>, which for a date without a time
  yields local midnight of that day, and \<^verbatim>\<open>addDays\<close>, which takes the time value of a
  valid date and a number of days to the time value of the same local time of day that
  many calendar days later (so seven days are 168 hours only when the offset to UTC does
  not change in between).
\<close>

type_synonym Date = "int option"

record date_fns =
  parseISO :: "string \<Rightarrow> Date"
  addDays :: "int \<Rightarrow> int \<Rightarrow> int"

fun isBefore :: "Date \<Rightarrow> Date \<Rightarrow> bool" where
  "isBefore (Some d) (Some c) = (d < c)"
| "isBefore _ _ = False"

fun isAfter :: "Date \<Rightarrow> Date \<Rightarrow> bool" where
  "isAfter (Some d) (Some c) = (d > c)"
| "isAfter _ _ = False"

text \<open>
  The two filters of \<^verbatim>\<open>stats\<close>, with \<open>today\<close> the time value of \<^verbatim>\<open>new Date()\<close>.
  The first is also the \<^verbatim>\<open>isOverdue\<close> flag of the vehicle cards.
\<close>

definition isOverdue :: "date_fns \<Rightarrow> int \<Rightarrow> Vehicle \<Rightarrow> bool" where
  "isOverdue D today v = isBefore (parseISO D (next_service_date_v v)) (Some today)"

definition isUpcoming :: "date_fns \<Rightarrow> int \<Rightarrow> Vehicle \<Rightarrow> bool" where
  "isUpcoming D today v =
     (let next = parseISO D (next_service_date_v v) in
      isAfter next (Some today) \<and> isBefore next (Some (addDays D today 7)))"

record Stats =
  total :: nat
  overdue :: nat
  upcoming :: nat

definition stats :: "date_fns \<Rightarrow> int \<Rightarrow> Vehicle list \<Rightarrow> Stats" where
  "stats D today vs =
     \<lparr>total = length vs,
      overdue = length (filter (isOverdue D today) vs),
      upcoming = length (filter (isUpcoming D today) vs)\<rparr>"

text \<open>
  The class a record falls in: counted as overdue, counted as upcoming, or neither.
\<close>

datatype status = Overdue | UpcomingWithin7Days | Scheduled

definition derived_status :: "date_fns \<Rightarrow> int \<Rightarrow> Vehicle \<Rightarrow> status" where
  "derived_status D today v =
     (if isOverdue D today v then Overdue
      else if isUpcoming D today v then UpcomingWithin7Days
      else Scheduled)"

section \<open>A small instance for running the handlers\<close>

text \<open>
  Stand-ins for the libraries, enough to evaluate the handlers on examples: a two-character
  salt prefixed to the password as its digest, tokens \<^verbatim>\<open><secret>.A\<close> and
  \<^verbatim>\<open><secret>.B\<close> for the accounts 1 and 2, and date-fns in the time zone UTC: the ISO
  dates of the examples parsed as UTC midnights, and days of 24 hours.
\<close>

definition demo_env :: env where
  "demo_env =
     \<lparr>JWT_SECRET = ''s3cret'',
      bcrypt_hash = (\<lambda>p salt. salt @ p),
      bcrypt_compare = (\<lambda>p h. drop 2 h = p),
      jwt_sign = (\<lambda>pl k. k @ (if userId pl = 1 then ''.A'' else ''.B'')),
      jwt_verify = (\<lambda>t k.
         if t = k @ ''.A'' then Some \<lparr>userId = 1, payload_email = None, garageName = None\<rparr>
         else if t = k @ ''.B''
         then Some \<lparr>userId = 2, payload_email = None, garageName = None\<rparr>
         else None),
      num_text = (\<lambda>n. if n = 555 then ''555.0'' else ''0.0''),
      rowid_of_text = (\<lambda>t. if t = ''1'' then Some 1 else if t = ''2'' then Some 2 else None)\<rparr>"

definition demo_parseISO :: "string \<Rightarrow> Date" where
  "demo_parseISO d =
     (if d = ''2024-01-01'' then Some 1704067200000
      else if d = ''2024-01-02'' then Some 1704153600000
      else if d = ''2024-01-05'' then Some 1704412800000
      else if d = ''2024-02-01'' then Some 1706745600000
      else None)"

definition demo_date_fns :: date_fns where
  "demo_date_fns = \<lparr>parseISO = demo_parseISO, addDays = (\<lambda>t n. t + n * 86400000)\<rparr>"

text \<open>
  date-fns in New York around the night of 2024-03-10, when the clocks go forward: seven
  calendar days after 2024-03-08 23:30 (UTC-5) is 2024-03-15 23:30 (UTC-4), which is 167
  hours later.
\<close>

definition new_york_date_fns :: date_fns where
  "new_york_date_fns =
     \<lparr>parseISO = (\<lambda>d. if d = ''2024-03-16'' then Some 1710561600000 else None),
      addDays = (\<lambda>t n. if t = 1709958600000 \<and> n = 7 then 1710559800000
                        else t + n * 86400000)\<rparr>"

definition alice :: jwt_payload where
  "alice = \<lparr>userId = 1, payload_email = None, garageName = None\<rparr>"

definition bob :: jwt_payload where
  "bob = \<lparr>userId = 2, payload_email = None, garageName = None\<rparr>"

definition alice_hdr :: "string option" where
  "alice_hdr = Some ''Bearer s3cret.A''"

definition bob_hdr :: "string option" where
  "bob_hdr = Some ''Bearer s3cret.B''"

text \<open>A token for account 1 signed with a secret that is not the server's.\<close>

definition forged_hdr :: "string option" where
  "forged_hdr = Some (''Bearer '' @ jwt_sign demo_env alice ''other'')"

text \<open>The record of the spec's scenario, first as given there, then with \<^verbatim>\<open>notes\<close>.\<close>

definition jane7 :: jsobj where
  "jane7 = [''owner_name'' \<mapsto> JStr ''Jane'', ''phone'' \<mapsto> JStr ''555'',
            ''vehicle_number'' \<mapsto> JStr ''AB123'', ''make'' \<mapsto> JStr ''Honda'',
            ''model'' \<mapsto> JStr ''City'', ''last_service_date'' \<mapsto> JStr ''2024-01-01'',
            ''next_service_date'' \<mapsto> JStr ''2024-01-02'']"

definition jane :: jsobj where
  "jane = jane7(''notes'' \<mapsto> JStr [])"

definition jane_row :: vehicle_row where
  "jane_row =
     \<lparr>v_id = 1, user_id = 1, owner_name = Some ''Jane'', phone = Some ''555'',
      vehicle_number = Some ''AB123'', make_col = Some ''Honda'', model = Some ''City'',
      last_service_date = Some ''2024-01-01'', next_service_date = Some ''2024-01-02'',
      notes_col = Some []\<rparr>"

definition bob_garage :: user_row where
  "bob_garage =
     \<lparr>u_id = 1, email = Some ''a@x.com'', password = Some ''$$pw123'',
      garage_name = Some ''Bobs Garage''\<rparr>"

definition signed_up_db :: db where
  "signed_up_db = \<lparr>users = [bob_garage], users_seq = 1, vehicles = [], vehicles_seq = 0\<rparr>"

definition demo_db :: db where
  "demo_db = \<lparr>users = [bob_garage], users_seq = 1, vehicles = [jane_row], vehicles_seq = 1\<rparr>"

definition jane_vehicle :: Vehicle where
  "jane_vehicle =
     \<lparr>id_v = 1, owner_name_v = ''Jane'', phone_v = ''555'', vehicle_number_v = ''AB123'',
      make_v = ''Honda'', model_v = ''City'', last_service_date_v = ''2024-01-01'',
      next_service_date_v = ''2024-01-02'', notes_v = []\<rparr>"

text \<open>The record as the client holds it, due on a given day.\<close>

definition due :: "string \<Rightarrow> Vehicle" where
  "due d = jane_vehicle\<lparr>next_service_date_v := d\<rparr>"

text \<open>
  The same record with a number for the phone, with a boolean for the notes, and with an
  \<^verbatim>\<open>id\<close> of its own.
\<close>

definition jane_numeric :: jsobj where
  "jane_numeric = jane(''phone'' \<mapsto> JNum 555)"


definition jane_with_id :: jsobj where
  "jane_with_id = jane(''id'' \<mapsto> JNum 99)"

text \<open>The store after account 1 created the record of the scenario, without notes.\<close>

definition scenario_row :: vehicle_row where
  "scenario_row = jane_row\<lparr>notes_col := None\<rparr>"

definition scenario_db :: db where
  "scenario_db = demo_db\<lparr>vehicles := [scenario_row]\<rparr>"

text \<open>The store after account 1 created the record with the number for the phone.\<close>

definition numeric_row :: vehicle_row where
  "numeric_row = jane_row\<lparr>phone := Some ''555.0''\<rparr>"

definition numeric_db :: db where
  "numeric_db = demo_db\<lparr>vehicles := [numeric_row]\<rparr>"

text \<open>Two records of account 1, the second created after the first.\<close>

definition two_records_db :: db where
  "two_records_db =
     \<lparr>users = [bob_garage], users_seq = 1,
      vehicles = [jane_row, jane_row\<lparr>v_id := 2\<rparr>], vehicles_seq = 2\<rparr>"

text \<open>Bodies for the two auth routes.\<close>

definition credentials :: "jsval \<Rightarrow> jsval \<Rightarrow> jsobj" where
  "credentials e p =
     [''email'' \<mapsto> e, ''password'' \<mapsto> p, ''garageName'' \<mapsto> JStr ''Bobs Garage'']"

section \<open>Facts about the store\<close>

lemma fold_max_lower: "seq \<le> fold max ids (seq::int)"
  by (induction ids arbitrary: seq) (auto intro: order_trans [OF max.cobounded2])

lemma fold_max_upper: "x \<in> set ids \<Longrightarrow> x \<le> fold max ids (seq::int)"
proof (induction ids arbitrary: seq)
  case Nil
  then show ?case by simp
next
  case (Cons a ids)
  show ?case
  proof (cases "x = a")
    case True
    have "a \<le> max a seq" by simp
    also have "\<dots> \<le> fold max ids (max a seq)" by (rule fold_max_lower)
    finally show ?thesis using True by simp
  next
    case False
    with Cons show ?thesis by simp
  qed
qed

lemma next_rowid_fresh: "x \<in> set ids \<Longrightarrow> x < next_rowid seq ids"
  using fold_max_upper [of x ids seq] by (simp add: next_rowid_def)

lemma sort_key_snoc_least:
  "\<forall>x\<in>set xs. f y < f x \<Longrightarrow> sort_key f (xs @ [y]) = y # sort_key f xs"
proof (induction xs)
  case Nil
  then show ?case by simp
next
  case (Cons a xs)
  then have IH: "sort_key f (xs @ [y]) = y # sort_key f xs" and "f y < f a" by simp_all
  then have "\<not> f a \<le> f y" by simp
  with IH show ?case by simp
qed

lemma filter_map_unchanged:
  "(\<And>x. P (g x) = P x) \<Longrightarrow> (\<And>x. P x \<Longrightarrow> g x = x) \<Longrightarrow>
   filter P (map g xs) = filter P xs"
  by (induction xs) auto

lemma select_vehicles_set:
  "set (select_vehicles s uid) = {r \<in> set (vehicles s). user_id r = uid}"
  by (auto simp: select_vehicles_def)

lemma select_vehicles_mset:
  "mset (select_vehicles s uid) = filter_mset (\<lambda>r. user_id r = uid) (mset (vehicles s))"
  by (simp add: select_vehicles_def)

lemma select_vehicles_descending:
  "sorted_wrt (\<lambda>r r'. v_id r' \<le> v_id r) (select_vehicles s uid)"
proof -
  have "sorted (map (\<lambda>r. - v_id r) (select_vehicles s uid))"
    by (simp add: select_vehicles_def)
  then show ?thesis by (simp add: sorted_map)
qed

lemma insert_vehicle_rows:
  "insert_vehicle E s uid body = Inr (i, s') \<Longrightarrow>
   i = next_rowid (vehicles_seq s) (map v_id (vehicles s)) \<and> users s' = users s \<and>
   (\<exists>r. vehicles s' = vehicles s @ [r] \<and> user_id r = uid \<and> v_id r = i)"
  by (auto simp: insert_vehicle_def Let_def split: if_splits)

text \<open>The handlers behind a request that passed the middleware.\<close>

lemma get_vehicles_auth:
  "authenticate E hdr = Inr c \<Longrightarrow>
   get_vehicles E s hdr = (VehicleList (select_vehicles s (userId c)), s)"
  by (simp add: get_vehicles_def)

lemma post_vehicles_auth:
  "authenticate E hdr = Inr c \<Longrightarrow>
   post_vehicles E s hdr body =
     (case insert_vehicle E s (userId c) body of
        Inl err \<Rightarrow> (UncaughtError, s)
      | Inr (i, s') \<Rightarrow> (Created ([''id'' \<mapsto> JNum i] ++ body), s'))"
  by (simp add: post_vehicles_def)

lemma put_vehicles_auth:
  "authenticate E hdr = Inr c \<Longrightarrow>
   put_vehicles E s hdr rid body =
     (case update_vehicle E s rid (userId c) body of
        Inl err \<Rightarrow> (UncaughtError, s)
      | Inr s' \<Rightarrow> (Success, s'))"
  by (simp add: put_vehicles_def)

lemma delete_vehicles_auth:
  "authenticate E hdr = Inr c \<Longrightarrow>
   delete_vehicles E s hdr rid = (Success, delete_vehicle E s rid (userId c))"
  by (simp add: delete_vehicles_def)

lemma update_vehicle_rows:
  "update_vehicle E s rid uid body = Inr s' \<Longrightarrow>
   users s' = users s \<and>
   (\<exists>g. (\<forall>r. user_id (g r) = user_id r) \<and> (\<forall>r. \<not> targets E rid uid r \<longrightarrow> g r = r) \<and>
        vehicles s' = map g (vehicles s))"
proof -
  assume "update_vehicle E s rid uid body = Inr s'"
  then have s': "s' = s\<lparr>vehicles :=
             map (\<lambda>r. if targets E rid uid r
                      then r\<lparr>owner_name := column E (body ''owner_name''),
                             phone := column E (body ''phone''),
                             vehicle_number := column E (body ''vehicle_number''),
                             make_col := column E (body ''make''),
                             model := column E (body ''model''),
                             last_service_date := column E (body ''last_service_date''),
                             next_service_date := column E (body ''next_service_date''),
                             notes_col := column E (body ''notes'')\<rparr>
                      else r)
                 (vehicles s)\<rparr>" (is "_ = s\<lparr>vehicles := map ?g (vehicles s)\<rparr>")
    by (simp add: update_vehicle_def split: if_splits)
  have u: "users s' = users s"
    by (simp add: s')
  have "(\<forall>r. user_id (?g r) = user_id r) \<and> (\<forall>r. \<not> targets E rid uid r \<longrightarrow> ?g r = r) \<and>
        vehicles s' = map ?g (vehicles s)"
    by (simp add: s')
  then have "\<exists>g. (\<forall>r. user_id (g r) = user_id r) \<and>
      (\<forall>r. \<not> targets E rid uid r \<longrightarrow> g r = r) \<and> vehicles s' = map g (vehicles s)"
    by (rule exI [of _ ?g])
  with u show ?thesis by (rule conjI)
qed

lemma put_vehicles_frame:
  assumes "authenticate E hdr = Inr c" and "uid \<noteq> userId c"
  shows "filter (\<lambda>r. user_id r = uid) (vehicles (snd (put_vehicles E s hdr rid body))) =
         filter (\<lambda>r. user_id r = uid) (vehicles s)"
proof (cases "update_vehicle E s rid (userId c) body")
  case (Inl err)
  with assms show ?thesis by (simp add: put_vehicles_auth)
next
  case (Inr s')
  from update_vehicle_rows [OF Inr] obtain g where
    g: "\<forall>r. user_id (g r) = user_id r" "\<forall>r. \<not> targets E rid (userId c) r \<longrightarrow> g r = r"
       "vehicles s' = map g (vehicles s)"
    by blast
  have "filter (\<lambda>r. user_id r = uid) (map g (vehicles s)) =
        filter (\<lambda>r. user_id r = uid) (vehicles s)"
    using g(1,2) assms(2) by (intro filter_map_unchanged) (auto simp: targets_def)
  with Inr assms(1) g(3) show ?thesis by (simp add: put_vehicles_auth)
qed

lemma delete_vehicles_frame:
  assumes "authenticate E hdr = Inr c" and "uid \<noteq> userId c"
  shows "filter (\<lambda>r. user_id r = uid) (vehicles (snd (delete_vehicles E s hdr rid))) =
         filter (\<lambda>r. user_id r = uid) (vehicles s)"
  using assms
  by (auto simp: delete_vehicles_auth delete_vehicle_def targets_def intro: filter_cong)

lemma post_vehicles_rows:
  assumes "authenticate E hdr = Inr c"
  shows "vehicles (snd (post_vehicles E s hdr body)) = vehicles s \<or>
         (\<exists>r. user_id r = userId c \<and>
              vehicles (snd (post_vehicles E s hdr body)) = vehicles s @ [r])"
proof (cases "insert_vehicle E s (userId c) body")
  case (Inl err)
  with assms show ?thesis by (simp add: post_vehicles_auth)
next
  case (Inr p)
  obtain i s' where p: "p = (i, s')" by (cases p)
  with Inr insert_vehicle_rows [of E s "userId c" body i s'] assms show ?thesis
    by (auto simp: post_vehicles_auth)
qed

text \<open>The instance evaluated.\<close>

lemma authenticate_alice: "authenticate demo_env alice_hdr = Inr alice"
  by (simp add: authenticate_def bearer_token_def alice_hdr_def demo_env_def alice_def)

lemma authenticate_bob: "authenticate demo_env bob_hdr = Inr bob"
  by (simp add: authenticate_def bearer_token_def bob_hdr_def demo_env_def bob_def)

lemma jane_bindable: "fields_bindable jane"
  by (simp add: fields_bindable_def field_names_def jane_def jane7_def bindable_def)

lemma jane_columns:
  "column E (jane ''owner_name'') = Some ''Jane''"
  "column E (jane ''phone'') = Some ''555''"
  "column E (jane ''vehicle_number'') = Some ''AB123''"
  "column E (jane ''make'') = Some ''Honda''"
  "column E (jane ''model'') = Some ''City''"
  "column E (jane ''last_service_date'') = Some ''2024-01-01''"
  "column E (jane ''next_service_date'') = Some ''2024-01-02''"
  "column E (jane ''notes'') = Some []"
  by (simp_all add: column_def jane_def jane7_def)

lemma insert_jane:
  "insert_vehicle demo_env signed_up_db 1 jane = Inr (1, demo_db)"
  by (simp add: insert_vehicle_def jane_bindable jane_columns Let_def next_rowid_def
      demo_db_def signed_up_db_def jane_row_def bob_garage_def)

lemma post_jane:
  "post_vehicles demo_env signed_up_db alice_hdr jane =
     (Created ([''id'' \<mapsto> JNum 1] ++ jane), demo_db)"
  by (simp add: post_vehicles_auth [OF authenticate_alice] alice_def insert_jane)

lemma get_demo_bob: "get_vehicles demo_env demo_db bob_hdr = (VehicleList [], demo_db)"
  by (simp add: get_vehicles_auth [OF authenticate_bob] bob_def select_vehicles_def
      demo_db_def jane_row_def)

section \<open>Tenant isolation\<close>

text \<open>
  Claim C1. Let A and B be two distinct accounts, each behind a verified token. A create
  under A adds at most one row and that row is owned by A. A listing under B contains only
  rows owned by B, so no row owned by A. An update or a delete under B, whatever record id
  it names, leaves the rows owned by A exactly as they were: none changed, none removed.
  The account id every statement filters by is the \<^verbatim>\<open>userId\<close> of the verified payload.
\<close>

theorem tenant_isolation:
  assumes "authenticate E hdrA = Inr a" and "authenticate E hdrB = Inr b"
      and "userId a \<noteq> userId b"
  shows "(vehicles (snd (post_vehicles E s hdrA body)) = vehicles s \<or>
            (\<exists>r. user_id r = userId a \<and>
                 vehicles (snd (post_vehicles E s hdrA body)) = vehicles s @ [r])) \<and>
         (\<exists>xs. get_vehicles E s hdrB = (VehicleList xs, s) \<and>
               (\<forall>r\<in>set xs. user_id r = userId b) \<and>
               (\<forall>r\<in>set (vehicles s). user_id r = userId a \<longrightarrow> r \<notin> set xs)) \<and>
         filter (\<lambda>r. user_id r = userId a)
             (vehicles (snd (put_vehicles E s hdrB rid body'))) =
           filter (\<lambda>r. user_id r = userId a) (vehicles s) \<and>
         filter (\<lambda>r. user_id r = userId a) (vehicles (snd (delete_vehicles E s hdrB rid))) =
           filter (\<lambda>r. user_id r = userId a) (vehicles s)"
proof (intro conjI)
  show "vehicles (snd (post_vehicles E s hdrA body)) = vehicles s \<or>
            (\<exists>r. user_id r = userId a \<and>
                 vehicles (snd (post_vehicles E s hdrA body)) = vehicles s @ [r])"
    using assms(1) by (rule post_vehicles_rows)
  show "\<exists>xs. get_vehicles E s hdrB = (VehicleList xs, s) \<and>
               (\<forall>r\<in>set xs. user_id r = userId b) \<and>
               (\<forall>r\<in>set (vehicles s). user_id r = userId a \<longrightarrow> r \<notin> set xs)"
    using assms(2,3) by (auto simp: get_vehicles_auth select_vehicles_set)
  show "filter (\<lambda>r. user_id r = userId a)
             (vehicles (snd (put_vehicles E s hdrB rid body'))) =
           filter (\<lambda>r. user_id r = userId a) (vehicles s)"
    using assms(2,3) by (rule put_vehicles_frame)
  show "filter (\<lambda>r. user_id r = userId a) (vehicles (snd (delete_vehicles E s hdrB rid))) =
           filter (\<lambda>r. user_id r = userId a) (vehicles s)"
    using assms(2,3) by (rule delete_vehicles_frame)
qed

theorem tenant_isolation_witness:
  "authenticate demo_env alice_hdr = Inr alice \<and> authenticate demo_env bob_hdr = Inr bob \<and>
   userId alice \<noteq> userId bob \<and> user_id jane_row = userId alice \<and>
   vehicles (snd (post_vehicles demo_env signed_up_db
                    alice_hdr jane)) = [jane_row] \<and>
   get_vehicles demo_env demo_db bob_hdr = (VehicleList [], demo_db) \<and>
   filter (\<lambda>r. user_id r = userId alice)
       (vehicles (snd (put_vehicles demo_env demo_db bob_hdr ''1'' jane_numeric))) =
     [jane_row] \<and>
   filter (\<lambda>r. user_id r = userId alice)
       (vehicles (snd (delete_vehicles demo_env demo_db bob_hdr ''1''))) = [jane_row]"
proof -
  have ne: "userId alice \<noteq> userId bob" by (simp add: alice_def bob_def)
  note inst = tenant_isolation [OF authenticate_alice authenticate_bob ne,
      where s = demo_db and rid = "''1''" and body' = jane_numeric and body = jane]
  have own: "user_id jane_row = userId alice" by (simp add: jane_row_def alice_def)
  have rows: "filter (\<lambda>r. user_id r = userId alice) (vehicles demo_db) = [jane_row]"
    by (simp add: demo_db_def own)
  have created: "vehicles (snd (post_vehicles demo_env
      signed_up_db alice_hdr jane)) = [jane_row]"
    by (simp add: post_jane) (simp add: demo_db_def)
  from inst show ?thesis
    by (simp add: rows own ne created authenticate_alice authenticate_bob get_demo_bob)
qed

section \<open>The access-control gate\<close>

lemma authenticate_reject:
  assumes "bearer_token hdr = None \<or> bearer_token hdr = Some [] \<or>
           (\<exists>t. bearer_token hdr = Some t \<and> jwt_verify E t (JWT_SECRET E) = None)"
  shows "authenticate E hdr =
           Inl (ErrorReply 401 (if bearer_token hdr = None \<or> bearer_token hdr = Some []
                                then ''Unauthorized'' else ''Invalid token''))"
  using assms by (auto simp: authenticate_def)

lemma bearer_token_absent: "bearer_token None = None"
  by (simp add: bearer_token_def)

lemma bearer_token_other_secret:
  "bearer_token forged_hdr = Some ''other.A''"
  by (simp add: forged_hdr_def bearer_token_def demo_env_def alice_def)

lemma verify_other_secret: "jwt_verify demo_env ''other.A'' (JWT_SECRET demo_env) = None"
  by (simp add: demo_env_def)

text \<open>
  Claim C4. A request to any of the four record endpoints whose \<^verbatim>\<open>Authorization\<close>
  header is absent or carries no token, or whose token is refused by \<^verbatim>\<open>jwt.verify\<close>
  under the server's secret (as a token signed with another secret is), is answered with
  status 401 by the middleware and the store is left as it was. The reply is the
  middleware's, whatever the body and record id are, so the route handler did not run.
\<close>

theorem unauthenticated_rejected:
  assumes "req = GetVehicles hdr \<or> req = PostVehicles hdr body \<or>
           req = PutVehicles hdr rid body \<or> req = DeleteVehicles hdr rid"
      and "bearer_token hdr = None \<or> bearer_token hdr = Some [] \<or>
           (\<exists>t. bearer_token hdr = Some t \<and> jwt_verify E t (JWT_SECRET E) = None)"
  shows "handle E s req =
           (ErrorReply 401 (if bearer_token hdr = None \<or> bearer_token hdr = Some []
                            then ''Unauthorized'' else ''Invalid token''), s)"
proof -
  note rej = authenticate_reject [OF assms(2)]
  from assms(1) consider "req = GetVehicles hdr" | "req = PostVehicles hdr body"
    | "req = PutVehicles hdr rid body" | "req = DeleteVehicles hdr rid"
    by blast
  then show ?thesis
  proof cases
    case 1
    then show ?thesis by (simp add: get_vehicles_def rej)
  next
    case 2
    then show ?thesis by (simp add: post_vehicles_def rej)
  next
    case 3
    then show ?thesis by (simp add: put_vehicles_def rej)
  next
    case 4
    then show ?thesis by (simp add: delete_vehicles_def rej)
  qed
qed

theorem unauthenticated_rejected_witness:
  "bearer_token None = None \<and>
   handle demo_env demo_db (PostVehicles None jane) =
     (ErrorReply 401 ''Unauthorized'', demo_db) \<and>
   bearer_token forged_hdr = Some ''other.A'' \<and>
   jwt_verify demo_env ''other.A'' (JWT_SECRET demo_env) = None \<and>
   handle demo_env demo_db
       (DeleteVehicles forged_hdr ''1'') =
     (ErrorReply 401 ''Invalid token'', demo_db)"
proof -
  have absent: "bearer_token None = None \<or> bearer_token None = Some [] \<or>
      (\<exists>t. bearer_token None = Some t \<and> jwt_verify demo_env t (JWT_SECRET demo_env) = None)"
    by (simp add: bearer_token_absent)
  have forged: "bearer_token forged_hdr = None \<or>
      bearer_token forged_hdr = Some [] \<or>
      (\<exists>t. bearer_token forged_hdr = Some t \<and>
           jwt_verify demo_env t (JWT_SECRET demo_env) = None)"
    by (simp add: bearer_token_other_secret verify_other_secret)
  have post: "PostVehicles None jane = GetVehicles None \<or>
      PostVehicles None jane = PostVehicles None jane \<or>
      PostVehicles None jane = PutVehicles None [] jane \<or>
      PostVehicles None jane = DeleteVehicles None []"
    by simp
  have del: "DeleteVehicles forged_hdr ''1'' =
        GetVehicles forged_hdr \<or>
      DeleteVehicles forged_hdr ''1'' =
        PostVehicles forged_hdr jane \<or>
      DeleteVehicles forged_hdr ''1'' =
        PutVehicles forged_hdr ''1'' jane \<or>
      DeleteVehicles forged_hdr ''1'' =
        DeleteVehicles forged_hdr ''1''"
    by simp
  from unauthenticated_rejected [OF post absent, of demo_db]
       unauthenticated_rejected [OF del forged, of demo_db]
  show ?thesis
    by (simp add: bearer_token_absent bearer_token_other_secret verify_other_secret)
qed

section \<open>Update and delete that match no row of the caller\<close>




lemma jane_numeric_bindable: "fields_bindable jane_numeric"
  by (simp add: fields_bindable_def field_names_def jane_numeric_def jane_def jane7_def
      bindable_def)






section \<open>Accounts\<close>

lemma insert_user_rows:
  "insert_user E s em pw gn = Inr (i, s') \<Longrightarrow>
   bindable em \<and> bindable pw \<and> bindable gn \<and>
   vehicles s' = vehicles s \<and>
   users s' = users s @ [\<lparr>u_id = i, email = column E em, password = column E pw,
                           garage_name = column E gn\<rparr>]"
  by (auto simp: insert_user_def Let_def split: if_splits)




lemma signup_users: "\<exists>us. users (snd (signup E s body salt)) = users s @ us"
proof (cases "hash_password E (body ''password'') salt")
  case (Inl err)
  then show ?thesis by (simp add: signup_def)
next
  case (Inr h)
  show ?thesis
  proof (cases "insert_user E s (body ''email'') (Some (JStr h)) (body ''garageName'')")
    case (Inl err)
    with Inr show ?thesis by (simp add: signup_def)
  next
    case inserted: (Inr p)
    obtain i s' where p: "p = (i, s')" by (cases p)
    with inserted Inr insert_user_rows [of E s "body ''email''" "Some (JStr h)"
        "body ''garageName''" i s']
    show ?thesis by (simp add: signup_def)
  qed
qed


lemma login_state: "snd (login E s body) = s"
  by (auto simp: login_def split: sum.splits option.splits bool.splits)

lemma select_user_text:
  "select_user E s (Some (JStr e)) = Inr (find (\<lambda>u. email u = Some e) (users s))"
  by (simp add: select_user_def bindable_def column_def)

lemma find_absent: "Some e \<notin> set (map email xs) \<Longrightarrow> find (\<lambda>u. email u = Some e) xs = None"
  by (induction xs) auto

lemma find_present:
  "Some e \<in> set (map email xs) \<Longrightarrow>
   \<exists>u. find (\<lambda>u. email u = Some e) xs = Some u \<and> u \<in> set xs \<and> email u = Some e"
  by (induction xs) auto






lemma login_demo_number_known:
  "login demo_env demo_db (credentials (JStr ''a@x.com'') (JNum 5)) =
     (ErrorReply 500 ''Internal server error'', demo_db)"
  by (simp add: login_def credentials_def select_user_text demo_db_def bob_garage_def)

lemma login_demo_number_unknown:
  "login demo_env demo_db (credentials (JStr ''nobody@x.com'') (JNum 5)) =
     (ErrorReply 401 ''Invalid credentials'', demo_db)"
  by (simp add: login_def credentials_def select_user_text demo_db_def bob_garage_def)

section \<open>Signing up twice\<close>




section \<open>Failed logins\<close>

text \<open>
  Claim C6, as the code has it. For every store: a login whose email is that of an account
  and whose password is a string that does not match the stored digest, and a login whose
  email is a string that no account has, get the same reply, 401
  \<^verbatim>\<open>Invalid credentials\<close>, and neither changes the store. (Passwords that are not
  strings are not covered: see the counterexample.)
\<close>

theorem login_failures_indistinguishable:
  assumes "body1 ''email'' = Some (JStr e1)" and "Some e1 \<in> set (map email (users s))"
      and "body1 ''password'' = Some (JStr p)"
      and "\<forall>u\<in>set (users s). email u = Some e1 \<longrightarrow>
             (\<exists>h. password u = Some h \<and> \<not> bcrypt_compare E p h)"
      and "body2 ''email'' = Some (JStr e2)" and "Some e2 \<notin> set (map email (users s))"
  shows "login E s body1 = (ErrorReply 401 ''Invalid credentials'', s) \<and>
         login E s body2 = (ErrorReply 401 ''Invalid credentials'', s)"
proof
  from find_present [OF assms(2)] obtain u where
    u: "find (\<lambda>u. email u = Some e1) (users s) = Some u" "u \<in> set (users s)"
       "email u = Some e1"
    by blast
  with assms(4) obtain h where h: "password u = Some h" "\<not> bcrypt_compare E p h"
    by blast
  show "login E s body1 = (ErrorReply 401 ''Invalid credentials'', s)"
    by (simp add: login_def assms(1,3) select_user_text u(1) h)
  show "login E s body2 = (ErrorReply 401 ''Invalid credentials'', s)"
    by (simp add: login_def assms(5) select_user_text find_absent [OF assms(6)])
qed

theorem login_failures_indistinguishable_witness:
  "credentials (JStr ''a@x.com'') (JStr ''nope'') ''email'' = Some (JStr ''a@x.com'') \<and>
   Some ''a@x.com'' \<in> set (map email (users demo_db)) \<and>
   credentials (JStr ''a@x.com'') (JStr ''nope'') ''password'' = Some (JStr ''nope'') \<and>
   users demo_db = [bob_garage] \<and> password bob_garage = Some ''$$pw123'' \<and>
   \<not> bcrypt_compare demo_env ''nope'' ''$$pw123'' \<and>
   credentials (JStr ''nobody@x.com'') (JStr ''nope'') ''email'' =
     Some (JStr ''nobody@x.com'') \<and>
   Some ''nobody@x.com'' \<notin> set (map email (users demo_db)) \<and>
   login demo_env demo_db (credentials (JStr ''a@x.com'') (JStr ''nope'')) =
     (ErrorReply 401 ''Invalid credentials'', demo_db) \<and>
   login demo_env demo_db (credentials (JStr ''nobody@x.com'') (JStr ''nope'')) =
     (ErrorReply 401 ''Invalid credentials'', demo_db)"
proof -
  have e1: "credentials (JStr ''a@x.com'') (JStr ''nope'') ''email'' = Some (JStr ''a@x.com'')"
    by (simp add: credentials_def)
  have known: "Some ''a@x.com'' \<in> set (map email (users demo_db))"
    by (simp add: demo_db_def bob_garage_def)
  have pw: "credentials (JStr ''a@x.com'') (JStr ''nope'') ''password'' = Some (JStr ''nope'')"
    by (simp add: credentials_def)
  have wrong: "\<forall>u\<in>set (users demo_db). email u = Some ''a@x.com'' \<longrightarrow>
      (\<exists>h. password u = Some h \<and> \<not> bcrypt_compare demo_env ''nope'' h)"
    by (simp add: demo_db_def bob_garage_def demo_env_def)
  have e2: "credentials (JStr ''nobody@x.com'') (JStr ''nope'') ''email'' =
      Some (JStr ''nobody@x.com'')"
    by (simp add: credentials_def)
  have unknown: "Some ''nobody@x.com'' \<notin> set (map email (users demo_db))"
    by (simp add: demo_db_def bob_garage_def)
  have rows: "users demo_db = [bob_garage]"
    by (simp add: demo_db_def)
  have digest: "password bob_garage = Some ''$$pw123''"
    by (simp add: bob_garage_def)
  have mismatch: "\<not> bcrypt_compare demo_env ''nope'' ''$$pw123''"
    by (simp add: demo_env_def)
  from login_failures_indistinguishable
    [where ?body1.0 = "credentials (JStr ''a@x.com'') (JStr ''nope'')"
       and ?body2.0 = "credentials (JStr ''nobody@x.com'') (JStr ''nope'')",
     OF e1 known pw wrong e2 unknown]
  show ?thesis using e1 known pw e2 unknown rows digest mismatch by blast
qed

text \<open>
  The claim as written fails: with the number 5 as password, a login for the email of an
  account is answered with 500 \<^verbatim>\<open>Internal server error\<close> and a login for an email
  that no account has with 401 \<^verbatim>\<open>Invalid credentials\<close>, so the two replies tell
  whether the account exists.
\<close>

theorem login_failures_counterexample:
  "Some ''a@x.com'' \<in> set (map email (users demo_db)) \<and>
   Some ''nobody@x.com'' \<notin> set (map email (users demo_db)) \<and>
   login demo_env demo_db (credentials (JStr ''a@x.com'') (JNum 5)) =
     (ErrorReply 500 ''Internal server error'', demo_db) \<and>
   login demo_env demo_db (credentials (JStr ''nobody@x.com'') (JNum 5)) =
     (ErrorReply 401 ''Invalid credentials'', demo_db) \<and>
   login demo_env demo_db (credentials (JStr ''a@x.com'') (JNum 5)) \<noteq>
     login demo_env demo_db (credentials (JStr ''nobody@x.com'') (JNum 5))"
  by (simp only: login_demo_number_known login_demo_number_unknown)
     (simp add: demo_db_def bob_garage_def)

section \<open>Accounts are never changed or removed\<close>

lemma post_vehicles_users: "users (snd (post_vehicles E s hdr body)) = users s"
proof (cases "authenticate E hdr")
  case (Inl r)
  then show ?thesis by (simp add: post_vehicles_def)
next
  case (Inr c)
  show ?thesis
  proof (cases "insert_vehicle E s (userId c) body")
    case (Inl err)
    with Inr show ?thesis by (simp add: post_vehicles_auth)
  next
    case inserted: (Inr p)
    obtain i s' where p: "p = (i, s')" by (cases p)
    with inserted Inr insert_vehicle_rows [of E s "userId c" body i s'] show ?thesis
      by (simp add: post_vehicles_auth)
  qed
qed

lemma put_vehicles_users: "users (snd (put_vehicles E s hdr rid body)) = users s"
proof (cases "authenticate E hdr")
  case (Inl r)
  then show ?thesis by (simp add: put_vehicles_def)
next
  case (Inr c)
  show ?thesis
  proof (cases "update_vehicle E s rid (userId c) body")
    case (Inl err)
    with Inr show ?thesis by (simp add: put_vehicles_auth)
  next
    case updated: (Inr s')
    with Inr update_vehicle_rows [OF updated] show ?thesis
      by (simp add: put_vehicles_auth)
  qed
qed

lemma delete_vehicles_users: "users (snd (delete_vehicles E s hdr rid)) = users s"
  by (cases "authenticate E hdr") (simp_all add: delete_vehicles_def delete_vehicle_def)

lemma get_vehicles_state: "snd (get_vehicles E s hdr) = s"
  by (cases "authenticate E hdr") (simp_all add: get_vehicles_def)

text \<open>
  Claim C9. Whatever the request, the account rows present before it are present after it,
  unchanged and in the same order: the table after the request is the table before it
  with, possibly, new rows behind. For every request but a signup the table is the same.
\<close>

theorem accounts_immutable:
  "(\<exists>us. users (snd (handle E s req)) = users s @ us) \<and>
   ((\<forall>body salt. req \<noteq> Signup body salt) \<longrightarrow> users (snd (handle E s req)) = users s)"
proof (cases req)
  case (Signup body salt)
  then show ?thesis using signup_users [of E s body salt] by simp
next
  case (Login body)
  then show ?thesis by (simp add: login_state)
next
  case (GetVehicles hdr)
  then show ?thesis by (simp add: get_vehicles_state)
next
  case (PostVehicles hdr body)
  then show ?thesis by (simp add: post_vehicles_users)
next
  case (PutVehicles hdr rid body)
  then show ?thesis by (simp add: put_vehicles_users)
next
  case (DeleteVehicles hdr rid)
  then show ?thesis by (simp add: delete_vehicles_users)
qed

theorem accounts_immutable_witness:
  "(\<forall>body salt. DeleteVehicles alice_hdr ''1'' \<noteq> Signup body salt) \<and>
   handle demo_env demo_db (DeleteVehicles alice_hdr ''1'') =
     (Success, demo_db\<lparr>vehicles := []\<rparr>) \<and>
   users (snd (handle demo_env demo_db (DeleteVehicles alice_hdr ''1''))) = [bob_garage]"
proof -
  have other: "\<forall>body salt. DeleteVehicles alice_hdr ''1'' \<noteq> Signup body salt"
    by simp
  have run: "handle demo_env demo_db (DeleteVehicles alice_hdr ''1'') =
      (Success, demo_db\<lparr>vehicles := []\<rparr>)"
    by (simp add: delete_vehicles_auth [OF authenticate_alice] alice_def delete_vehicle_def
        targets_def demo_db_def jane_row_def)
       (simp add: demo_env_def)
  have rows: "users demo_db = [bob_garage]"
    by (simp add: demo_db_def)
  from accounts_immutable [of demo_env demo_db "DeleteVehicles alice_hdr ''1''"] other
  have "users (snd (handle demo_env demo_db (DeleteVehicles alice_hdr ''1''))) = users demo_db"
    by blast
  with other run rows show ?thesis by simp
qed

section \<open>Service-date classification\<close>

lemma derived_status_parsed:
  assumes "parseISO D (next_service_date_v v) = Some next"
  shows "derived_status D today v =
           (if next < today then Overdue
            else if today < next \<and> next < addDays D today 7 then UpcomingWithin7Days
            else Scheduled)"
  using assms by (simp add: derived_status_def isOverdue_def isUpcoming_def)

lemma derived_status_invalid:
  "parseISO D (next_service_date_v v) = None \<Longrightarrow> derived_status D today v = Scheduled"
  by (simp add: derived_status_def isOverdue_def isUpcoming_def)

lemma stats_by_status:
  "overdue (stats D today vs) =
     length (filter (\<lambda>v. derived_status D today v = Overdue) vs)"
  "upcoming (stats D today vs) =
     length (filter (\<lambda>v. derived_status D today v = UpcomingWithin7Days) vs)"
proof -
  have o: "isOverdue D today v \<longleftrightarrow> derived_status D today v = Overdue" for v
    by (simp add: derived_status_def)
  have u: "isUpcoming D today v \<longleftrightarrow> derived_status D today v = UpcomingWithin7Days" for v
    by (cases "parseISO D (next_service_date_v v)")
       (auto simp: derived_status_def isOverdue_def isUpcoming_def)
  show "overdue (stats D today vs) =
     length (filter (\<lambda>v. derived_status D today v = Overdue) vs)"
    by (simp add: stats_def) (metis o)
  show "upcoming (stats D today vs) =
     length (filter (\<lambda>v. derived_status D today v = UpcomingWithin7Days) vs)"
    by (simp add: stats_def) (metis u)
qed

text \<open>The instances evaluated.\<close>

lemma demo_parsed:
  "parseISO demo_date_fns (next_service_date_v (due ''2024-01-01'')) = Some 1704067200000"
  "parseISO demo_date_fns (next_service_date_v (due ''2024-01-02'')) = Some 1704153600000"
  "parseISO demo_date_fns (next_service_date_v (due ''2024-01-05'')) = Some 1704412800000"
  "parseISO demo_date_fns (next_service_date_v (due ''2024-02-01'')) = Some 1706745600000"
  by (simp_all add: demo_date_fns_def demo_parseISO_def due_def jane_vehicle_def)

lemma demo_cutoff:
  "addDays demo_date_fns 1704153600000 7 = 1704758400000"
  "addDays demo_date_fns 1704189600000 7 = 1704794400000"
  by (simp_all add: demo_date_fns_def)

lemma new_york_parsed:
  "parseISO new_york_date_fns (next_service_date_v (due ''2024-03-16'')) = Some 1710561600000"
  by (simp add: new_york_date_fns_def due_def jane_vehicle_def)

lemma new_york_cutoff: "addDays new_york_date_fns 1709958600000 7 = 1710559800000"
  by (simp add: new_york_date_fns_def)

text \<open>
  Claim C2, as the code has it. With the next service date parsed to the instant
  \<open>next\<close> and the current instant \<open>now\<close> given: the record is Overdue if
  \<open>next < now\<close>; UpcomingWithin7Days if \<open>now < next\<close> and \<open>next\<close> is before the
  instant that \<^verbatim>\<open>addDays(now, 7)\<close> yields, which is the same local time of day seven
  calendar days after \<open>now\<close>; otherwise Scheduled. A record with \<open>next = now\<close> is
  therefore Scheduled, and a record dated today, whose date parses to the midnight that
  began today, is Overdue from then on.
\<close>

theorem derived_status_classification:
  assumes "parseISO D (next_service_date_v v) = Some next"
  shows "derived_status D now v =
           (if next < now then Overdue
            else if now < next \<and> next < addDays D now 7 then UpcomingWithin7Days
            else Scheduled)"
  using assms by (rule derived_status_parsed)

text \<open>
  In UTC at the midnight that begins 2024-01-02: due the day before, three days later and
  thirty days later. In New York on 2024-03-08 at 23:30, two days before the clocks go
  forward: the record due 2024-03-16 is 168.5 hours away and yet not before the cutoff,
  which is 167 hours away.
\<close>

theorem derived_status_classification_witness:
  "parseISO demo_date_fns (next_service_date_v (due ''2024-01-01'')) = Some 1704067200000 \<and>
   derived_status demo_date_fns 1704153600000 (due ''2024-01-01'') = Overdue \<and>
   parseISO demo_date_fns (next_service_date_v (due ''2024-01-05'')) = Some 1704412800000 \<and>
   derived_status demo_date_fns 1704153600000 (due ''2024-01-05'') = UpcomingWithin7Days \<and>
   parseISO demo_date_fns (next_service_date_v (due ''2024-02-01'')) = Some 1706745600000 \<and>
   derived_status demo_date_fns 1704153600000 (due ''2024-02-01'') = Scheduled \<and>
   parseISO new_york_date_fns (next_service_date_v (due ''2024-03-16'')) =
     Some 1710561600000 \<and>
   addDays new_york_date_fns 1709958600000 7 = 1710559800000 \<and>
   derived_status new_york_date_fns 1709958600000 (due ''2024-03-16'') = Scheduled"
  using
    derived_status_classification [where D = demo_date_fns and now = 1704153600000,
      OF demo_parsed(1)]
    derived_status_classification [where D = demo_date_fns and now = 1704153600000,
      OF demo_parsed(3)]
    derived_status_classification [where D = demo_date_fns and now = 1704153600000,
      OF demo_parsed(4)]
    derived_status_classification [where D = new_york_date_fns and now = 1709958600000,
      OF new_york_parsed]
  by (simp add: demo_parsed demo_cutoff new_york_parsed new_york_cutoff)

text \<open>
  The claim as written fails at its lower bound. With \<open>now\<close> the midnight that begins
  2024-01-02, the record due 2024-01-02 has \<open>next = now\<close> and is neither overdue nor
  upcoming; ten hours later the same day it is Overdue. In neither case is it
  UpcomingWithin7Days.
\<close>

theorem derived_status_counterexample:
  "parseISO demo_date_fns (next_service_date_v (due ''2024-01-02'')) = Some 1704153600000 \<and>
   derived_status demo_date_fns 1704153600000 (due ''2024-01-02'') = Scheduled \<and>
   derived_status demo_date_fns 1704153600000 (due ''2024-01-02'') \<noteq> UpcomingWithin7Days \<and>
   derived_status demo_date_fns 1704189600000 (due ''2024-01-02'') = Overdue"
  by (simp add: demo_parsed
      derived_status_parsed [where D = demo_date_fns, OF demo_parsed(2)])

section \<open>Listing after a create\<close>

lemma select_after_insert:
  assumes "insert_vehicle E s uid body = Inr (i, s')"
  shows "\<exists>r. vehicles s' = vehicles s @ [r] \<and> user_id r = uid \<and> v_id r = i \<and>
             i \<notin> set (map v_id (vehicles s)) \<and>
             select_vehicles s' uid = r # select_vehicles s uid"
proof -
  from insert_vehicle_rows [OF assms] obtain r where
    i: "i = next_rowid (vehicles_seq s) (map v_id (vehicles s))" and
    r: "vehicles s' = vehicles s @ [r]" "user_id r = uid" "v_id r = i"
    by blast
  have above: "v_id x < i" if "x \<in> set (vehicles s)" for x
    using that next_rowid_fresh [of "v_id x" "map v_id (vehicles s)" "vehicles_seq s"]
    by (simp add: i)
  then have fresh: "i \<notin> set (map v_id (vehicles s))"
    by force
  have "\<forall>x\<in>set (filter (\<lambda>r. user_id r = uid) (vehicles s)). - v_id r < - v_id x"
    using above r(3) by simp
  then have "sort_key (\<lambda>r. - v_id r) (filter (\<lambda>r. user_id r = uid) (vehicles s) @ [r]) =
      r # sort_key (\<lambda>r. - v_id r) (filter (\<lambda>r. user_id r = uid) (vehicles s))"
    by (rule sort_key_snoc_least)
  then have "select_vehicles s' uid = r # select_vehicles s uid"
    by (simp add: select_vehicles_def r(1,2))
  with r fresh show ?thesis by blast
qed

lemma post_then_get:
  assumes "authenticate E hdr = Inr c" and "fields_bindable body"
      and "userId c \<in> set (map u_id (users s))"
  shows "\<exists>i r s'. post_vehicles E s hdr body = (Created ([''id'' \<mapsto> JNum i] ++ body), s') \<and>
           i = next_rowid (vehicles_seq s) (map v_id (vehicles s)) \<and>
           i \<notin> set (map v_id (vehicles s)) \<and>
           vehicles s' = vehicles s @ [r] \<and>
           r = \<lparr>v_id = i, user_id = userId c,
                owner_name = column E (body ''owner_name''),
                phone = column E (body ''phone''),
                vehicle_number = column E (body ''vehicle_number''),
                make_col = column E (body ''make''),
                model = column E (body ''model''),
                last_service_date = column E (body ''last_service_date''),
                next_service_date = column E (body ''next_service_date''),
                notes_col = column E (body ''notes'')\<rparr> \<and>
           get_vehicles E s' hdr = (VehicleList (r # select_vehicles s (userId c)), s')"
proof -
  define i where "i = next_rowid (vehicles_seq s) (map v_id (vehicles s))"
  define r where "r = \<lparr>v_id = i, user_id = userId c,
                owner_name = column E (body ''owner_name''),
                phone = column E (body ''phone''),
                vehicle_number = column E (body ''vehicle_number''),
                make_col = column E (body ''make''),
                model = column E (body ''model''),
                last_service_date = column E (body ''last_service_date''),
                next_service_date = column E (body ''next_service_date''),
                notes_col = column E (body ''notes'')\<rparr>"
  define s' where "s' = s\<lparr>vehicles := vehicles s @ [r], vehicles_seq := i\<rparr>"
  have ins: "insert_vehicle E s (userId c) body = Inr (i, s')"
    using assms(2,3) by (simp add: insert_vehicle_def Let_def i_def r_def s'_def)
  from select_after_insert [OF ins] obtain r' where
    r': "vehicles s' = vehicles s @ [r']" "i \<notin> set (map v_id (vehicles s))"
        "select_vehicles s' (userId c) = r' # select_vehicles s (userId c)"
    by blast
  have rows: "vehicles s' = vehicles s @ [r]"
    by (simp add: s'_def)
  with r'(1) have "r' = r" by simp
  with r'(3) have listed: "get_vehicles E s' hdr =
      (VehicleList (r # select_vehicles s (userId c)), s')"
    by (simp add: get_vehicles_auth [OF assms(1)])
  have created: "post_vehicles E s hdr body = (Created ([''id'' \<mapsto> JNum i] ++ body), s')"
    by (simp add: post_vehicles_auth [OF assms(1)] ins)
  show ?thesis
  proof (intro exI conjI)
    show "post_vehicles E s hdr body = (Created ([''id'' \<mapsto> JNum i] ++ body), s')"
      by (rule created)
    show "i = next_rowid (vehicles_seq s) (map v_id (vehicles s))"
      by (rule i_def)
    show "i \<notin> set (map v_id (vehicles s))"
      by (rule r'(2))
    show "vehicles s' = vehicles s @ [r]"
      by (rule rows)
    show "r = \<lparr>v_id = i, user_id = userId c,
                owner_name = column E (body ''owner_name''),
                phone = column E (body ''phone''),
                vehicle_number = column E (body ''vehicle_number''),
                make_col = column E (body ''make''),
                model = column E (body ''model''),
                last_service_date = column E (body ''last_service_date''),
                next_service_date = column E (body ''next_service_date''),
                notes_col = column E (body ''notes'')\<rparr>"
      by (rule r_def)
    show "get_vehicles E s' hdr = (VehicleList (r # select_vehicles s (userId c)), s')"
      by (rule listed)
  qed
qed

lemma fields_text_bindable: "fields_text body \<Longrightarrow> fields_bindable body"
proof -
  have "text_or_null v \<Longrightarrow> bindable v" for v
    by (cases v rule: text_or_null.cases) (simp_all add: bindable_def)
  then show "fields_text body \<Longrightarrow> fields_bindable body"
    by (auto simp: fields_text_def fields_bindable_def list_all_iff)
qed

lemma text_round_trip: "text_or_null v \<Longrightarrow> Some (text_json (column E v)) = listed v"
  by (cases v rule: text_or_null.cases) (simp_all add: column_def text_json_def)

lemma row_json_fields:
  "row_json r ''id'' = Some (JNum (v_id r))"
  "row_json r ''user_id'' = Some (JNum (user_id r))"
  "row_json r ''owner_name'' = Some (text_json (owner_name r))"
  "row_json r ''phone'' = Some (text_json (phone r))"
  "row_json r ''vehicle_number'' = Some (text_json (vehicle_number r))"
  "row_json r ''make'' = Some (text_json (make_col r))"
  "row_json r ''model'' = Some (text_json (model r))"
  "row_json r ''last_service_date'' = Some (text_json (last_service_date r))"
  "row_json r ''next_service_date'' = Some (text_json (next_service_date r))"
  "row_json r ''notes'' = Some (text_json (notes_col r))"
  by (simp_all add: row_json_def)

text \<open>The instance evaluated.\<close>

lemma get_demo_alice: "get_vehicles demo_env demo_db alice_hdr = (VehicleList [jane_row], demo_db)"
  by (simp add: get_vehicles_auth [OF authenticate_alice] alice_def select_vehicles_def
      demo_db_def jane_row_def)

lemma post_second_jane:
  "post_vehicles demo_env demo_db alice_hdr jane =
     (Created ([''id'' \<mapsto> JNum 2] ++ jane), two_records_db)"
  by (simp add: post_vehicles_auth [OF authenticate_alice] alice_def insert_vehicle_def
      jane_bindable jane_columns Let_def next_rowid_def demo_db_def two_records_db_def
      jane_row_def bob_garage_def)

text \<open>
  Claim C8. For an authenticated caller the listing is computed from the store it is asked
  about: it holds exactly the rows owned by the caller (each as often as the table holds
  it, and no other), ordered by descending id. Ids grow with every create, so this is
  newest first: after a create by the caller, the listing is the new row followed by the
  listing before the create.
\<close>

theorem list_ordering:
  assumes "authenticate E hdr = Inr c"
  shows "\<exists>xs. get_vehicles E s hdr = (VehicleList xs, s) \<and>
           mset xs = filter_mset (\<lambda>r. user_id r = userId c) (mset (vehicles s)) \<and>
           sorted_wrt (\<lambda>r r'. v_id r' \<le> v_id r) xs \<and>
           (\<forall>m s'. post_vehicles E s hdr body = (Created m, s') \<longrightarrow>
              (\<exists>r. vehicles s' = vehicles s @ [r] \<and>
                   get_vehicles E s' hdr = (VehicleList (r # xs), s')))"
proof -
  have later: "\<exists>r. vehicles s' = vehicles s @ [r] \<and>
      get_vehicles E s' hdr = (VehicleList (r # select_vehicles s (userId c)), s')"
    if "post_vehicles E s hdr body = (Created m, s')" for m s'
  proof (cases "insert_vehicle E s (userId c) body")
    case (Inl err)
    with that show ?thesis by (simp add: post_vehicles_auth [OF assms])
  next
    case (Inr p)
    obtain i s'' where p: "p = (i, s'')" by (cases p)
    with Inr that have ins: "insert_vehicle E s (userId c) body = Inr (i, s')"
      by (simp add: post_vehicles_auth [OF assms])
    from select_after_insert [OF ins] show ?thesis
      by (auto simp: get_vehicles_auth [OF assms])
  qed
  have "get_vehicles E s hdr = (VehicleList (select_vehicles s (userId c)), s)"
    by (rule get_vehicles_auth [OF assms])
  with later show ?thesis
    by (auto simp: select_vehicles_mset select_vehicles_descending)
qed

theorem list_ordering_witness:
  "authenticate demo_env alice_hdr = Inr alice \<and>
   get_vehicles demo_env demo_db alice_hdr = (VehicleList [jane_row], demo_db) \<and>
   post_vehicles demo_env demo_db alice_hdr jane =
     (Created ([''id'' \<mapsto> JNum 2] ++ jane), two_records_db) \<and>
   vehicles two_records_db = vehicles demo_db @ [jane_row\<lparr>v_id := 2\<rparr>] \<and>
   get_vehicles demo_env two_records_db alice_hdr =
     (VehicleList [jane_row\<lparr>v_id := 2\<rparr>, jane_row], two_records_db)"
proof -
  have rows: "vehicles two_records_db = vehicles demo_db @ [jane_row\<lparr>v_id := 2\<rparr>]"
    by (simp add: two_records_db_def demo_db_def)
  from list_ordering [OF authenticate_alice, of demo_db jane]
  obtain xs where
    xs: "get_vehicles demo_env demo_db alice_hdr = (VehicleList xs, demo_db)" and
    after: "\<forall>m s'. post_vehicles demo_env demo_db alice_hdr jane = (Created m, s') \<longrightarrow>
       (\<exists>r. vehicles s' = vehicles demo_db @ [r] \<and>
            get_vehicles demo_env s' alice_hdr = (VehicleList (r # xs), s'))"
    by blast
  from xs have "xs = [jane_row]" by (simp add: get_demo_alice)
  with after post_second_jane obtain r where
    "vehicles two_records_db = vehicles demo_db @ [r]"
    "get_vehicles demo_env two_records_db alice_hdr =
       (VehicleList [r, jane_row], two_records_db)"
    by blast
  with rows show ?thesis
    by (simp add: authenticate_alice get_demo_alice post_second_jane)
qed

section \<open>Create, then list\<close>

lemma fields_text_each:
  assumes "fields_text body"
  shows "text_or_null (body ''owner_name'')" "text_or_null (body ''phone'')"
    "text_or_null (body ''vehicle_number'')" "text_or_null (body ''make'')"
    "text_or_null (body ''model'')" "text_or_null (body ''last_service_date'')"
    "text_or_null (body ''next_service_date'')" "text_or_null (body ''notes'')"
  using assms by (simp_all add: fields_text_def field_names_def)

lemma jane7_text: "fields_text jane7"
  by (simp add: fields_text_def field_names_def jane7_def)

lemma jane7_columns:
  "column E (jane7 ''owner_name'') = Some ''Jane''"
  "column E (jane7 ''phone'') = Some ''555''"
  "column E (jane7 ''vehicle_number'') = Some ''AB123''"
  "column E (jane7 ''make'') = Some ''Honda''"
  "column E (jane7 ''model'') = Some ''City''"
  "column E (jane7 ''last_service_date'') = Some ''2024-01-01''"
  "column E (jane7 ''next_service_date'') = Some ''2024-01-02''"
  "column E (jane7 ''notes'') = None"
  by (simp_all add: column_def jane7_def)

lemma post_jane7:
  "post_vehicles demo_env signed_up_db alice_hdr jane7 =
     (Created ([''id'' \<mapsto> JNum 1] ++ jane7), scenario_db)"
  by (simp add: post_vehicles_auth [OF authenticate_alice] alice_def insert_vehicle_def
      fields_text_bindable [OF jane7_text] jane7_columns Let_def next_rowid_def
      signed_up_db_def scenario_db_def scenario_row_def demo_db_def jane_row_def
      bob_garage_def)

lemma get_scenario:
  "get_vehicles demo_env scenario_db alice_hdr = (VehicleList [scenario_row], scenario_db)"
  by (simp add: get_vehicles_auth [OF authenticate_alice] alice_def select_vehicles_def
      scenario_db_def scenario_row_def demo_db_def jane_row_def)

lemma jane_numeric_columns:
  "column demo_env (jane_numeric ''owner_name'') = Some ''Jane''"
  "column demo_env (jane_numeric ''phone'') = Some ''555.0''"
  "column demo_env (jane_numeric ''vehicle_number'') = Some ''AB123''"
  "column demo_env (jane_numeric ''make'') = Some ''Honda''"
  "column demo_env (jane_numeric ''model'') = Some ''City''"
  "column demo_env (jane_numeric ''last_service_date'') = Some ''2024-01-01''"
  "column demo_env (jane_numeric ''next_service_date'') = Some ''2024-01-02''"
  "column demo_env (jane_numeric ''notes'') = Some []"
  by (simp_all add: column_def jane_numeric_def jane_def jane7_def demo_env_def)

lemma post_jane_numeric:
  "post_vehicles demo_env signed_up_db alice_hdr jane_numeric =
     (Created ([''id'' \<mapsto> JNum 1] ++ jane_numeric), numeric_db)"
  by (simp add: post_vehicles_auth [OF authenticate_alice] alice_def insert_vehicle_def
      jane_numeric_bindable jane_numeric_columns Let_def next_rowid_def signed_up_db_def
      numeric_db_def numeric_row_def demo_db_def jane_row_def bob_garage_def)

lemma get_numeric:
  "get_vehicles demo_env numeric_db alice_hdr = (VehicleList [numeric_row], numeric_db)"
  by (simp add: get_vehicles_auth [OF authenticate_alice] alice_def select_vehicles_def
      numeric_db_def numeric_row_def demo_db_def jane_row_def)

lemma jane_with_id_bindable: "fields_bindable jane_with_id"
  by (simp add: fields_bindable_def field_names_def jane_with_id_def jane_def jane7_def
      bindable_def)

lemma jane_with_id_columns:
  "column E (jane_with_id ''owner_name'') = Some ''Jane''"
  "column E (jane_with_id ''phone'') = Some ''555''"
  "column E (jane_with_id ''vehicle_number'') = Some ''AB123''"
  "column E (jane_with_id ''make'') = Some ''Honda''"
  "column E (jane_with_id ''model'') = Some ''City''"
  "column E (jane_with_id ''last_service_date'') = Some ''2024-01-01''"
  "column E (jane_with_id ''next_service_date'') = Some ''2024-01-02''"
  "column E (jane_with_id ''notes'') = Some []"
  by (simp_all add: column_def jane_with_id_def jane_def jane7_def)

lemma post_jane_with_id:
  "post_vehicles demo_env signed_up_db alice_hdr jane_with_id =
     (Created ([''id'' \<mapsto> JNum 1] ++ jane_with_id), demo_db)"
  by (simp add: post_vehicles_auth [OF authenticate_alice] alice_def insert_vehicle_def
      jane_with_id_bindable jane_with_id_columns Let_def next_rowid_def signed_up_db_def
      demo_db_def jane_row_def bob_garage_def)

lemma alice_signed_up: "userId alice \<in> set (map u_id (users signed_up_db))"
  by (simp add: alice_def signed_up_db_def bob_garage_def)

lemma alice_among_ids: "userId alice \<in> u_id ` set (users signed_up_db)"
  using alice_signed_up by simp

text \<open>
  Claim C7, as the code has it. For an authenticated caller whose account is in the store
  and a body in which each of the eight fields is a string, \<^verbatim>\<open>null\<close> or left out: the
  create succeeds with an id that no row had, and a listing for the same account right
  after it starts with a row that has this id, the account as owner, and in each of the
  eight fields exactly the value submitted, or \<^verbatim>\<open>null\<close> where the field was left out;
  the rows listed before follow it.
\<close>

theorem create_list_roundtrip:
  assumes "authenticate E hdr = Inr c" and "userId c \<in> set (map u_id (users s))"
      and "fields_text body"
  shows "\<exists>i r s'. post_vehicles E s hdr body = (Created ([''id'' \<mapsto> JNum i] ++ body), s') \<and>
           i \<notin> set (map v_id (vehicles s)) \<and>
           get_vehicles E s' hdr = (VehicleList (r # select_vehicles s (userId c)), s') \<and>
           row_json r ''id'' = Some (JNum i) \<and>
           row_json r ''user_id'' = Some (JNum (userId c)) \<and>
           (\<forall>k\<in>set field_names. row_json r k = listed (body k))"
proof -
  from post_then_get [OF assms(1) fields_text_bindable [OF assms(3)] assms(2)]
  obtain i r s' where
    created: "post_vehicles E s hdr body = (Created ([''id'' \<mapsto> JNum i] ++ body), s')" and
    fresh: "i \<notin> set (map v_id (vehicles s))" and
    r: "r = \<lparr>v_id = i, user_id = userId c,
                owner_name = column E (body ''owner_name''),
                phone = column E (body ''phone''),
                vehicle_number = column E (body ''vehicle_number''),
                make_col = column E (body ''make''),
                model = column E (body ''model''),
                last_service_date = column E (body ''last_service_date''),
                next_service_date = column E (body ''next_service_date''),
                notes_col = column E (body ''notes'')\<rparr>" and
    listed: "get_vehicles E s' hdr = (VehicleList (r # select_vehicles s (userId c)), s')"
    by blast
  have ids: "row_json r ''id'' = Some (JNum i)" "row_json r ''user_id'' = Some (JNum (userId c))"
    by (simp_all add: row_json_fields r)
  have "\<forall>k\<in>set field_names. row_json r k = listed (body k)"
    by (simp add: field_names_def row_json_fields r text_round_trip
        fields_text_each [OF assms(3)])
  with created fresh listed ids show ?thesis by blast
qed

text \<open>The record of the spec's scenario: its seven fields come back, and the notes as null.\<close>

theorem create_list_roundtrip_witness:
  "authenticate demo_env alice_hdr = Inr alice \<and>
   userId alice \<in> set (map u_id (users signed_up_db)) \<and> fields_text jane7 \<and>
   post_vehicles demo_env signed_up_db alice_hdr jane7 =
     (Created ([''id'' \<mapsto> JNum 1] ++ jane7), scenario_db) \<and>
   get_vehicles demo_env scenario_db alice_hdr = (VehicleList [scenario_row], scenario_db) \<and>
   row_json scenario_row ''id'' = Some (JNum 1) \<and>
   list_all (\<lambda>k. row_json scenario_row k = listed (jane7 k)) field_names \<and>
   row_json scenario_row ''vehicle_number'' = Some (JStr ''AB123'') \<and>
   row_json scenario_row ''notes'' = Some JNull"
proof -
  from create_list_roundtrip [OF authenticate_alice alice_signed_up jane7_text]
  obtain i r s' where
    created: "post_vehicles demo_env signed_up_db alice_hdr jane7 =
      (Created ([''id'' \<mapsto> JNum i] ++ jane7), s')" and
    listed: "get_vehicles demo_env s' alice_hdr =
      (VehicleList (r # select_vehicles signed_up_db (userId alice)), s')" and
    same: "\<forall>k\<in>set field_names. row_json r k = listed (jane7 k)"
    by blast
  from created have "s' = scenario_db" by (simp add: post_jane7)
  with listed have "r = scenario_row" by (simp add: get_scenario)
  with same have all: "list_all (\<lambda>k. row_json scenario_row k = listed (jane7 k)) field_names"
    by (simp add: list_all_iff)
  then have "row_json scenario_row ''vehicle_number'' = listed (jane7 ''vehicle_number'')"
    and "row_json scenario_row ''notes'' = listed (jane7 ''notes'')"
    by (simp_all add: field_names_def)
  then have "row_json scenario_row ''vehicle_number'' = Some (JStr ''AB123'')"
    and "row_json scenario_row ''notes'' = Some JNull"
    by (simp_all add: jane7_def)
  with all show ?thesis
    by (simp add: authenticate_alice alice_among_ids jane7_text post_jane7 get_scenario
        row_json_fields scenario_row_def jane_row_def)
qed

text \<open>
  The claim as written fails: of the record submitted with the number 555 as phone, the
  listing returns the text \<^verbatim>\<open>555.0\<close>.
\<close>

theorem create_list_roundtrip_counterexample:
  "authenticate demo_env alice_hdr = Inr alice \<and>
   userId alice \<in> set (map u_id (users signed_up_db)) \<and>
   post_vehicles demo_env signed_up_db alice_hdr jane_numeric =
     (Created ([''id'' \<mapsto> JNum 1] ++ jane_numeric), numeric_db) \<and>
   get_vehicles demo_env numeric_db alice_hdr = (VehicleList [numeric_row], numeric_db) \<and>
   jane_numeric ''phone'' = Some (JNum 555) \<and>
   row_json numeric_row ''phone'' = Some (JStr ''555.0'') \<and>
   row_json numeric_row ''phone'' \<noteq> jane_numeric ''phone''"
  by (simp add: authenticate_alice alice_among_ids post_jane_numeric get_numeric
      row_json_fields)
     (simp add: jane_numeric_def numeric_row_def text_json_def)

section \<open>The reply to a create\<close>

text \<open>
  Claim C10. For an authenticated caller whose account is in the store and a body none of
  whose eight fields is a boolean, the create succeeds and its reply is the generated id
  overlaid with the body: where the body has an \<^verbatim>\<open>id\<close> of its own, the reply's
  \<^verbatim>\<open>id\<close> is the body's, not the generated one, while the row stored has the generated
  id. (Without an \<^verbatim>\<open>id\<close> in the body, the reply carries the generated id.)
\<close>

theorem create_reply_spreads_body:
  assumes "authenticate E hdr = Inr c" and "userId c \<in> set (map u_id (users s))"
      and "fields_bindable body"
  shows "\<exists>i r s'. post_vehicles E s hdr body = (Created ([''id'' \<mapsto> JNum i] ++ body), s') \<and>
           vehicles s' = vehicles s @ [r] \<and> row_json r ''id'' = Some (JNum i) \<and>
           ([''id'' \<mapsto> JNum i] ++ body) ''id'' =
             (case body ''id'' of None \<Rightarrow> Some (JNum i) | Some v \<Rightarrow> Some v)"
proof -
  from post_then_get [OF assms(1,3,2)]
  obtain i r s' where
    created: "post_vehicles E s hdr body = (Created ([''id'' \<mapsto> JNum i] ++ body), s')" and
    rows: "vehicles s' = vehicles s @ [r]" and
    r: "r = \<lparr>v_id = i, user_id = userId c,
                owner_name = column E (body ''owner_name''),
                phone = column E (body ''phone''),
                vehicle_number = column E (body ''vehicle_number''),
                make_col = column E (body ''make''),
                model = column E (body ''model''),
                last_service_date = column E (body ''last_service_date''),
                next_service_date = column E (body ''next_service_date''),
                notes_col = column E (body ''notes'')\<rparr>"
    by blast
  have stored: "row_json r ''id'' = Some (JNum i)"
    by (simp add: row_json_fields r)
  have reply: "([''id'' \<mapsto> JNum i] ++ body) ''id'' =
      (case body ''id'' of None \<Rightarrow> Some (JNum i) | Some v \<Rightarrow> Some v)"
    by (simp add: map_add_def split: option.split)
  from created rows stored reply show ?thesis by blast
qed

theorem create_reply_spreads_body_witness:
  "authenticate demo_env alice_hdr = Inr alice \<and>
   userId alice \<in> set (map u_id (users signed_up_db)) \<and> fields_bindable jane_with_id \<and>
   jane_with_id ''id'' = Some (JNum 99) \<and>
   post_vehicles demo_env signed_up_db alice_hdr jane_with_id =
     (Created ([''id'' \<mapsto> JNum 1] ++ jane_with_id), demo_db) \<and>
   ([''id'' \<mapsto> JNum 1] ++ jane_with_id) ''id'' = Some (JNum 99) \<and>
   vehicles demo_db = vehicles signed_up_db @ [jane_row] \<and>
   row_json jane_row ''id'' = Some (JNum 1) \<and>
   Some (JNum 99) \<noteq> row_json jane_row ''id''"
proof -
  have sent: "jane_with_id ''id'' = Some (JNum 99)"
    by (simp add: jane_with_id_def)
  from create_reply_spreads_body [OF authenticate_alice alice_signed_up jane_with_id_bindable]
  obtain i where
    created: "post_vehicles demo_env signed_up_db alice_hdr jane_with_id =
      (Created ([''id'' \<mapsto> JNum i] ++ jane_with_id), demo_db)" and
    reply: "([''id'' \<mapsto> JNum i] ++ jane_with_id) ''id'' =
      (case jane_with_id ''id'' of None \<Rightarrow> Some (JNum i) | Some v \<Rightarrow> Some v)"
    by (auto simp: post_jane_with_id)
  from created have "[''id'' \<mapsto> JNum 1] ++ jane_with_id = [''id'' \<mapsto> JNum i] ++ jane_with_id"
    by (simp add: post_jane_with_id)
  with reply have answered: "([''id'' \<mapsto> JNum 1] ++ jane_with_id) ''id'' = Some (JNum 99)"
    by (simp add: sent)
  have rows: "vehicles demo_db = vehicles signed_up_db @ [jane_row]"
    by (simp add: demo_db_def signed_up_db_def)
  have stored: "row_json jane_row ''id'' = Some (JNum 1)"
    by (simp add: row_json_fields jane_row_def)
  from sent answered rows stored show ?thesis
    by (simp add: authenticate_alice alice_among_ids jane_with_id_bindable post_jane_with_id)
qed

end
